theory Spec2Isabelle
  imports Main "HOL-Library.Word"
begin

section \<open>A SOCKS5 server core: \<^verbatim>\<open>mysocks5.go\<close>\<close>

text \<open>
  The development embeds the three functions of \<^verbatim>\<open>src/mysocks5/mysocks5.go\<close> that
  carry protocol logic: \<^verbatim>\<open>New\<close>, \<^verbatim>\<open>ServeConn\<close> and \<^verbatim>\<open>needNoAuth\<close>. The Go
  code works on a socket, a buffered reader over it, a logger reached through two pointers
  and three package functions (\<^verbatim>\<open>NewRequest\<close>, \<^verbatim>\<open>sendReply\<close>,
  \<^verbatim>\<open>handleRequest\<close>) whose source is not part of the file. Each of these becomes
  explicit here:
  \<^item> the bytes a client sends are a list, followed by the error that \<^verbatim>\<open>Read\<close> reports
    once they are used up;
  \<^item> every \<^verbatim>\<open>Write\<close>, the hand-over of a request, relaying and \<^verbatim>\<open>Close\<close> are
    appended to a trace of the connection;
  \<^item> a nil pointer dereference is the outcome \<open>Panic\<close>;
  \<^item> the three absent functions are parameters of \<open>ServeConn_with\<close>; \<open>ServeConn\<close>
    instantiates them with definitions that follow the specification's description.
\<close>

subsection \<open>Bytes, errors, addresses\<close>

type_synonym byte = "8 word"

text \<open>\<^verbatim>\<open>const ( socks5Version = uint8(5); noAuth = uint8(0) )\<close>\<close>

definition socks5Version :: byte where
  "socks5Version = 5"

definition noAuth :: byte where
  "noAuth = 0"

text \<open>The classes of a failed dial (specification, section 4.4).\<close>

datatype dial_failure = HostUnreachable | NetworkUnreachable | ConnectionRefused | GeneralFailure

text \<open>
  Go's \<^verbatim>\<open>error\<close> values. \<open>EOF\<close> and \<open>ErrUnexpectedEOF\<close> are the two sentinels of
  package \<^verbatim>\<open>io\<close>; \<open>IOError k\<close> stands for any other failure of the transport.
  \<open>unrecognizedAddrType\<close> is the package's sentinel that \<^verbatim>\<open>ServeConn\<close> compares
  against. An error made by \<^verbatim>\<open>fmt.Errorf("...: %v", err)\<close> is a constructor around the
  error it prints:
  \<^item> \<open>UnsupportedVersion v\<close>: \<^verbatim>\<open>"Unsupported SOCKS version: %v"\<close> of the slice \<open>v\<close>;
  \<^item> \<open>FailedToSendReply e\<close>: \<^verbatim>\<open>"Failed to send reply: %v"\<close>;
  \<^item> \<open>FailedToReadDestAddr e\<close>: \<^verbatim>\<open>"Failed to read destination address: %v"\<close>;
  \<^item> \<open>FailedToHandleRequest e\<close>: \<^verbatim>\<open>"Failed to handle request: %v"\<close>.
  \<open>UnsupportedCommand\<close> and \<open>DialError\<close> belong to the specification's taxonomy
  (section 7) and are produced only by the functions modelled from it.
\<close>

datatype error =
    EOF
  | ErrUnexpectedEOF
  | IOError nat
  | UnsupportedVersion "byte list"
  | unrecognizedAddrType
  | UnsupportedCommand byte
  | DialError dial_failure
  | FailedToSendReply error
  | FailedToReadDestAddr error
  | FailedToHandleRequest error

text \<open>
  \<^verbatim>\<open>AddrSpec\<close> and \<^verbatim>\<open>Request\<close> are declared outside the file. The composite
  literal \<^verbatim>\<open>&AddrSpec{IP: client.IP, Port: client.Port}\<close> and the assignment to
  \<^verbatim>\<open>request.RemoteAddr\<close> fix the fields \<open>IP\<close>, \<open>Port\<close> and \<open>RemoteAddr\<close>.

  Modelled from the spec: the remaining fields of \<^verbatim>\<open>AddrSpec\<close> and \<^verbatim>\<open>Request\<close>
  (section 3). An address holds a 4-byte address, a 16-byte address or a name, and a port;
  \<open>FQDN\<close> is \<open>Some name\<close> for a domain name, which is not resolved. A request holds the
  command, the destination and the optional remote address of the client.
\<close>

record AddrSpec =
  FQDN :: "byte list option"
  IP :: "byte list"
  Port :: nat

record Request =
  Command :: byte
  DestAddr :: AddrSpec
  RemoteAddr :: "AddrSpec option"

subsection \<open>The buffered reader\<close>

text \<open>
  \<^verbatim>\<open>bufio.NewReader(conn)\<close>: the bytes the client still delivers, and the error a read
  reports when none is left (\<open>EOF\<close> after an orderly shutdown, a transport error
  otherwise). The buffer and the socket under it are one stream here: what
  \<^verbatim>\<open>bufConn\<close> has read ahead stays pending for the next reader of \<^verbatim>\<open>bufConn\<close>. A
  read blocks until a byte or an error arrives, so every read of the model returns; a
  session whose client neither sends nor closes never leaves \<^verbatim>\<open>ServeConn\<close> and is not
  described.
\<close>

record Reader =
  pending :: "byte list"
  fails_with :: error

text \<open>
  \<^verbatim>\<open>r.Read(b)\<close> with a buffer of one byte: the next byte, or the error. The code
  ignores the count that \<^verbatim>\<open>Read\<close> returns; a read that transfers nothing and reports
  no error, which \<^verbatim>\<open>io.Reader\<close> discourages and a socket does not do for a non-empty
  buffer, is not part of the model.
\<close>

definition Read1 :: "Reader \<Rightarrow> Reader \<times> (error + byte)" where
  "Read1 r =
     (case pending r of
        [] \<Rightarrow> (r, Inl (fails_with r))
      | b # bs \<Rightarrow> (r\<lparr>pending := bs\<rparr>, Inr b))"

text \<open>
  \<^verbatim>\<open>io.ReadAtLeast(r, buf, n)\<close> with \<^verbatim>\<open>len(buf) = n\<close>: \<open>n\<close> bytes, or an error after
  consuming what was there. The error is \<open>EOF\<close> only if no byte was read; an \<open>EOF\<close> after
  fewer than \<open>n\<close> bytes is reported as \<open>ErrUnexpectedEOF\<close>. For \<open>n = 0\<close> the reader is
  not touched.
\<close>

definition ReadAtLeast :: "Reader \<Rightarrow> nat \<Rightarrow> Reader \<times> (error + byte list)" where
  "ReadAtLeast r n =
     (if n \<le> length (pending r)
      then (r\<lparr>pending := drop n (pending r)\<rparr>, Inr (take n (pending r)))
      else (r\<lparr>pending := []\<rparr>,
            Inl (if pending r \<noteq> [] \<and> fails_with r = EOF then ErrUnexpectedEOF
                 else fails_with r)))"

subsection \<open>The connection\<close>

text \<open>\<^verbatim>\<open>conn.RemoteAddr()\<close> is a \<^verbatim>\<open>*net.TCPAddr\<close> or an address of another kind.\<close>

datatype net_Addr = TCPAddr "byte list" nat | UnixAddr string

text \<open>
  What a session does to its connection, oldest event first: a \<^verbatim>\<open>Write\<close> with its
  buffer and its result, the call of \<^verbatim>\<open>handleRequest\<close> with its request, the start of
  relaying, and \<^verbatim>\<open>Close\<close>.
\<close>

datatype event =
    Write "byte list" "error option"
  | Handle Request
  | Relay
  | Close

text \<open>
  \<open>results\<close> lists what the successive calls of \<^verbatim>\<open>Write\<close> will return (\<open>None\<close> is a
  complete write); when the list is used up, writes succeed.
\<close>

record Conn =
  results :: "error option list"
  trace :: "event list"
  conn_RemoteAddr :: net_Addr

definition conn_Write :: "Conn \<Rightarrow> byte list \<Rightarrow> Conn \<times> error option" where
  "conn_Write c p =
     (case results c of
        [] \<Rightarrow> (c\<lparr>trace := trace c @ [Write p None]\<rparr>, None)
      | r # rs \<Rightarrow> (c\<lparr>results := rs, trace := trace c @ [Write p r]\<rparr>, r))"

definition conn_Close :: "Conn \<Rightarrow> Conn" where
  "conn_Close c = c\<lparr>trace := trace c @ [Close]\<rparr>"

subsection \<open>Configuration, server and logger\<close>

datatype log_output = Stdout | Other nat

record log_Logger =
  out :: log_output
  prefix :: string
  flag :: nat

text \<open>\<^verbatim>\<open>log.LstdFlags = Ldate | Ltime\<close>\<close>

definition LstdFlags :: nat where
  "LstdFlags = 3"

text \<open>\<^verbatim>\<open>log.New(out, prefix, flag)\<close>\<close>

definition log_New :: "log_output \<Rightarrow> string \<Rightarrow> nat \<Rightarrow> log_Logger" where
  "log_New w p f = \<lparr>out = w, prefix = p, flag = f\<rparr>"

text \<open>
  \<^verbatim>\<open>Config\<close> is reached through a pointer that the caller keeps: configurations live in
  a heap, a \<^verbatim>\<open>*Config\<close> is \<open>None\<close> (nil) or \<open>Some\<close> address.
\<close>

record Config =
  BindIP :: "byte list"
  Logger :: "log_Logger option"

type_synonym addr = nat
type_synonym heap = "addr \<Rightarrow> Config"

record Server =
  config :: "addr option"

text \<open>The lines a session logs, by format string.\<close>

datatype log_entry =
    FailedVersionByte error
  | SocksError error
  | InvalidMethodRegion error

datatype 'a outcome = Panic | Return 'a

text \<open>
  The state of one session: its buffered reader, its connection, the lines logged and, for
  the command executor, the result of dialling a destination (the local address of the new
  connection, or the class of the failure).
\<close>

record world =
  bufConn :: Reader
  conn :: Conn
  logged :: "log_entry list"
  dial :: "AddrSpec \<Rightarrow> dial_failure + AddrSpec"

text \<open>
  \<^verbatim>\<open>s.config.Logger.Printf(...)\<close>: \<open>None\<close> when \<^verbatim>\<open>s.config\<close> or the logger is nil
  (the call panics), the world with one more line otherwise.
\<close>

definition Printf :: "heap \<Rightarrow> Server \<Rightarrow> log_entry \<Rightarrow> world \<Rightarrow> world option" where
  "Printf h s entry w =
     (case config s of
        None \<Rightarrow> None
      | Some a \<Rightarrow>
          (case Logger (h a) of
             None \<Rightarrow> None
           | Some l \<Rightarrow> Some (w\<lparr>logged := logged w @ [entry]\<rparr>)))"

subsection \<open>\<^verbatim>\<open>New\<close>\<close>

text \<open>
  \<^verbatim>\<open>
  func New(conf *Config) (*Server, error) {
      if conf.Logger == nil {
          conf.Logger = log.New(os.Stdout, "", log.LstdFlags)
      }
      server := &Server{config: conf}
      return server, nil
  }
  \<close>
  The result is the heap after the call, the server pointer and the error.
\<close>

definition New :: "heap \<Rightarrow> addr option \<Rightarrow> (heap \<times> Server option \<times> error option) outcome" where
  "New h conf =
     (case conf of
        None \<Rightarrow> Panic
      | Some a \<Rightarrow>
          (let h' = (if Logger (h a) = None
                     then h(a := (h a)\<lparr>Logger := Some (log_New Stdout [] LstdFlags)\<rparr>)
                     else h)
           in Return (h', Some \<lparr>config = conf\<rparr>, None)))"

subsection \<open>\<^verbatim>\<open>needNoAuth\<close>\<close>

text \<open>
  \<^verbatim>\<open>
  func (s *Server) needNoAuth(r io.Reader, w io.Writer) error {
      header := []byte{0}
      if _, err := r.Read(header); err != nil { return err }
      numMethods := int(header[0])
      methods := make([]byte, numMethods)
      if _, err := io.ReadAtLeast(r, methods, numMethods); err != nil { return err }
      _, err := w.Write([]byte{socks5Version, noAuth})
      return err
  }
  \<close>
\<close>

definition needNoAuth :: "Reader \<Rightarrow> Conn \<Rightarrow> Reader \<times> Conn \<times> error option" where
  "needNoAuth r w =
     (case Read1 r of
        (r1, Inl err) \<Rightarrow> (r1, w, Some err)
      | (r1, Inr header) \<Rightarrow>
          (case ReadAtLeast r1 (unat header) of
             (r2, Inl err) \<Rightarrow> (r2, w, Some err)
           | (r2, Inr methods) \<Rightarrow>
               (case conn_Write w [socks5Version, noAuth] of
                  (w', err) \<Rightarrow> (r2, w', err))))"

subsection \<open>\<^verbatim>\<open>ServeConn\<close>\<close>

text \<open>
  Modelled from the spec: the constant \<^verbatim>\<open>addrTypeNotSupported\<close>, declared outside the
  file. Section 6 gives the reply code of "address type not supported" as 0x08.
\<close>

definition addrTypeNotSupported :: byte where
  "addrTypeNotSupported = 8"

text \<open>
  The body of \<^verbatim>\<open>ServeConn\<close>, between \<^verbatim>\<open>defer conn.Close()\<close> and the return:
  \<^verbatim>\<open>
  bufConn := bufio.NewReader(conn)
  version := []byte{0}
  if _, err := bufConn.Read(version); err != nil {
      s.config.Logger.Printf("[ERR] socks: Failed to get version byte: %v", err)
      return err
  }
  if version[0] != socks5Version {
      err := fmt.Errorf("Unsupported SOCKS version: %v", version)
      s.config.Logger.Printf("[ERR] socks: %v", err)
      return err
  }
  if err := s.needNoAuth(bufConn, conn); err != nil {
      s.config.Logger.Printf("[ERR] socks: Invalid method region: %v", err)
      return err
  }
  request, err := NewRequest(bufConn)
  if err != nil {
      if err == unrecognizedAddrType {
          if err := sendReply(conn, addrTypeNotSupported, nil); err != nil {
              return fmt.Errorf("Failed to send reply: %v", err)
          }
      }
      return fmt.Errorf("Failed to read destination address: %v", err)
  }
  if client, ok := conn.RemoteAddr().(*net.TCPAddr); ok {
      request.RemoteAddr = &AddrSpec{IP: client.IP, Port: client.Port}
  }
  if err := s.handleRequest(request, conn); err != nil {
      err = fmt.Errorf("Failed to handle request: %v", err)
      s.config.Logger.Printf("[ERR] socks: %v", err)
      return err
  }
  return nil
  \<close>
  The parameters \<open>newRequest\<close>, \<open>sendReply'\<close> and \<open>handleRequest'\<close> are the three
  callees: \<^verbatim>\<open>NewRequest(bufConn)\<close> is given the reader only,
  \<^verbatim>\<open>sendReply(conn, code, nil)\<close> the connection, \<^verbatim>\<open>s.handleRequest(request, conn)\<close>
  may act on the whole session. The event \<open>Handle request'\<close> is added to the trace at the
  call of \<^verbatim>\<open>handleRequest\<close>, to record the request it is given; it stands for no action
  of the code on the connection.
\<close>

definition ServeConn_body ::
  "(Reader \<Rightarrow> Reader \<times> (error + Request)) \<Rightarrow>
   (Conn \<Rightarrow> byte \<Rightarrow> AddrSpec option \<Rightarrow> Conn \<times> error option) \<Rightarrow>
   (Request \<Rightarrow> world \<Rightarrow> world \<times> error option) \<Rightarrow>
   heap \<Rightarrow> Server \<Rightarrow> world \<Rightarrow> world \<times> error option outcome" where
  "ServeConn_body newRequest sendReply' handleRequest' h s w =
     (case Read1 (bufConn w) of
        (r1, Inl err) \<Rightarrow>
          (case Printf h s (FailedVersionByte err) (w\<lparr>bufConn := r1\<rparr>) of
             None \<Rightarrow> (w\<lparr>bufConn := r1\<rparr>, Panic)
           | Some w1 \<Rightarrow> (w1, Return (Some err)))
      | (r1, Inr version) \<Rightarrow>
          if version \<noteq> socks5Version then
            (case Printf h s (SocksError (UnsupportedVersion [version])) (w\<lparr>bufConn := r1\<rparr>) of
               None \<Rightarrow> (w\<lparr>bufConn := r1\<rparr>, Panic)
             | Some w1 \<Rightarrow> (w1, Return (Some (UnsupportedVersion [version]))))
          else
            (case needNoAuth r1 (conn w) of
               (r2, c2, Some err) \<Rightarrow>
                 (case Printf h s (InvalidMethodRegion err) (w\<lparr>bufConn := r2, conn := c2\<rparr>) of
                    None \<Rightarrow> (w\<lparr>bufConn := r2, conn := c2\<rparr>, Panic)
                  | Some w2 \<Rightarrow> (w2, Return (Some err)))
             | (r2, c2, None) \<Rightarrow>
                 (case newRequest r2 of
                    (r3, Inl err) \<Rightarrow>
                      if err = unrecognizedAddrType then
                        (case sendReply' c2 addrTypeNotSupported None of
                           (c3, Some err') \<Rightarrow>
                             (w\<lparr>bufConn := r3, conn := c3\<rparr>, Return (Some (FailedToSendReply err')))
                         | (c3, None) \<Rightarrow>
                             (w\<lparr>bufConn := r3, conn := c3\<rparr>, Return (Some (FailedToReadDestAddr err))))
                      else (w\<lparr>bufConn := r3, conn := c2\<rparr>, Return (Some (FailedToReadDestAddr err)))
                  | (r3, Inr request) \<Rightarrow>
                      (let request' =
                             (case conn_RemoteAddr c2 of
                                TCPAddr ip port \<Rightarrow>
                                  request\<lparr>RemoteAddr := Some \<lparr>FQDN = None, IP = ip, Port = port\<rparr>\<rparr>
                              | _ \<Rightarrow> request);
                           w3 = w\<lparr>bufConn := r3, conn := c2\<lparr>trace := trace c2 @ [Handle request']\<rparr>\<rparr>
                       in (case handleRequest' request' w3 of
                             (w4, Some err) \<Rightarrow>
                               (case Printf h s (SocksError (FailedToHandleRequest err)) w4 of
                                  None \<Rightarrow> (w4, Panic)
                                | Some w5 \<Rightarrow> (w5, Return (Some (FailedToHandleRequest err))))
                           | (w4, None) \<Rightarrow> (w4, Return None))))))"

text \<open>
  \<^verbatim>\<open>defer conn.Close()\<close>: the connection is closed when the body is left, by a return
  or by a panic.
\<close>

definition ServeConn_with ::
  "(Reader \<Rightarrow> Reader \<times> (error + Request)) \<Rightarrow>
   (Conn \<Rightarrow> byte \<Rightarrow> AddrSpec option \<Rightarrow> Conn \<times> error option) \<Rightarrow>
   (Request \<Rightarrow> world \<Rightarrow> world \<times> error option) \<Rightarrow>
   heap \<Rightarrow> Server \<Rightarrow> world \<Rightarrow> world \<times> error option outcome" where
  "ServeConn_with newRequest sendReply' handleRequest' h s w =
     (case ServeConn_body newRequest sendReply' handleRequest' h s w of
        (w', res) \<Rightarrow> (w'\<lparr>conn := conn_Close (conn w')\<rparr>, res))"

subsection \<open>The callees, from the specification\<close>

text \<open>
  Modelled from the spec: \<^verbatim>\<open>NewRequest\<close>, whose source is not part of the file. Section
  4.1 (decode request header, decode address body): read the version byte, which must be
  the supported version; the command byte, which must be 1, 2 or 3; a reserved byte, which
  is ignored; the address-type byte, which must be 1, 3 or 4; then 4 bytes, 16 bytes, or a
  length byte and as many bytes of name; then a port of 2 bytes, big-endian. A short read
  or an I/O error aborts decoding with that error.
\<close>

definition decode_port ::
  "byte list option \<Rightarrow> byte list \<Rightarrow> Reader \<Rightarrow> Reader \<times> (error + AddrSpec)" where
  "decode_port name ip r =
     (case ReadAtLeast r 2 of
        (r1, Inl err) \<Rightarrow> (r1, Inl err)
      | (r1, Inr p) \<Rightarrow>
          (r1, Inr \<lparr>FQDN = name, IP = ip, Port = unat (p ! 0) * 256 + unat (p ! 1)\<rparr>))"

definition decode_address :: "byte \<Rightarrow> Reader \<Rightarrow> Reader \<times> (error + AddrSpec)" where
  "decode_address atyp r =
     (if atyp = 1 then
        (case ReadAtLeast r 4 of
           (r1, Inl err) \<Rightarrow> (r1, Inl err)
         | (r1, Inr ip) \<Rightarrow> decode_port None ip r1)
      else if atyp = 3 then
        (case Read1 r of
           (r1, Inl err) \<Rightarrow> (r1, Inl err)
         | (r1, Inr l) \<Rightarrow>
             (case ReadAtLeast r1 (unat l) of
                (r2, Inl err) \<Rightarrow> (r2, Inl err)
              | (r2, Inr name) \<Rightarrow> decode_port (Some name) [] r2))
      else if atyp = 4 then
        (case ReadAtLeast r 16 of
           (r1, Inl err) \<Rightarrow> (r1, Inl err)
         | (r1, Inr ip) \<Rightarrow> decode_port None ip r1)
      else (r, Inl unrecognizedAddrType))"

definition NewRequest :: "Reader \<Rightarrow> Reader \<times> (error + Request)" where
  "NewRequest r =
     (case Read1 r of
        (r1, Inl err) \<Rightarrow> (r1, Inl err)
      | (r1, Inr version) \<Rightarrow>
          if version \<noteq> socks5Version then (r1, Inl (UnsupportedVersion [version]))
          else
            (case Read1 r1 of
               (r2, Inl err) \<Rightarrow> (r2, Inl err)
             | (r2, Inr cmd) \<Rightarrow>
                 if cmd \<noteq> 1 \<and> cmd \<noteq> 2 \<and> cmd \<noteq> 3 then (r2, Inl (UnsupportedCommand cmd))
                 else
                   (case Read1 r2 of
                      (r3, Inl err) \<Rightarrow> (r3, Inl err)
                    | (r3, Inr rsv) \<Rightarrow>
                        (case Read1 r3 of
                           (r4, Inl err) \<Rightarrow> (r4, Inl err)
                         | (r4, Inr atyp) \<Rightarrow>
                             (case decode_address atyp r4 of
                                (r5, Inl err) \<Rightarrow> (r5, Inl err)
                              | (r5, Inr a) \<Rightarrow>
                                  (r5, Inr \<lparr>Command = cmd, DestAddr = a,
                                            RemoteAddr = None\<rparr>))))))"

text \<open>
  Modelled from the spec: \<^verbatim>\<open>sendReply\<close>, whose source is not part of the file. Section
  4.1 (encode reply) and section 6: version byte, reply code, a reserved 0x00, the address
  type, the address body and the port, big-endian, in one write. Without a bound address
  the reply carries the zero IPv4 address and port 0; an address that is neither a name nor
  4 or 16 bytes long is treated as no address.
\<close>

definition zero_bound :: "byte list" where
  "zero_bound = [1, 0, 0, 0, 0, 0, 0]"

definition encode_port :: "nat \<Rightarrow> byte list" where
  "encode_port p = [of_nat (p div 256), of_nat (p mod 256)]"

definition encode_bound :: "AddrSpec option \<Rightarrow> byte list" where
  "encode_bound addr =
     (case addr of
        None \<Rightarrow> zero_bound
      | Some a \<Rightarrow>
          (case FQDN a of
             Some name \<Rightarrow> 3 # of_nat (length name) # name @ encode_port (Port a)
           | None \<Rightarrow>
               if length (IP a) = 4 then 1 # IP a @ encode_port (Port a)
               else if length (IP a) = 16 then 4 # IP a @ encode_port (Port a)
               else zero_bound))"

definition encode_reply :: "byte \<Rightarrow> AddrSpec option \<Rightarrow> byte list" where
  "encode_reply code addr = socks5Version # code # 0 # encode_bound addr"

definition sendReply :: "Conn \<Rightarrow> byte \<Rightarrow> AddrSpec option \<Rightarrow> Conn \<times> error option" where
  "sendReply c code addr = conn_Write c (encode_reply code addr)"

text \<open>
  Modelled from the spec: \<^verbatim>\<open>handleRequest\<close> and the reply codes, whose source is not
  part of the file. Section 4.4: for CONNECT, dial the destination; on success send a
  success reply with the local address of the new connection, then relay; on failure send
  the reply of the failure's class and do not relay. Any other command gets the reply
  "command not supported". Relaying starts only after the success reply was written.
\<close>

definition successReply :: byte where
  "successReply = 0"

definition commandNotSupported :: byte where
  "commandNotSupported = 7"

definition ConnectCommand :: byte where
  "ConnectCommand = 1"

fun failure_code :: "dial_failure \<Rightarrow> byte" where
  "failure_code GeneralFailure = 1"
| "failure_code NetworkUnreachable = 3"
| "failure_code HostUnreachable = 4"
| "failure_code ConnectionRefused = 5"

definition handleRequest :: "Request \<Rightarrow> world \<Rightarrow> world \<times> error option" where
  "handleRequest req w =
     (if Command req = ConnectCommand then
        (case dial w (DestAddr req) of
           Inl f \<Rightarrow>
             (case sendReply (conn w) (failure_code f) None of
                (c, _) \<Rightarrow> (w\<lparr>conn := c\<rparr>, Some (DialError f)))
         | Inr local \<Rightarrow>
             (case sendReply (conn w) successReply (Some local) of
                (c, Some err) \<Rightarrow> (w\<lparr>conn := c\<rparr>, Some (FailedToSendReply err))
              | (c, None) \<Rightarrow> (w\<lparr>conn := c\<lparr>trace := trace c @ [Relay]\<rparr>\<rparr>, None)))
      else
        (case sendReply (conn w) commandNotSupported None of
           (c, _) \<Rightarrow> (w\<lparr>conn := c\<rparr>, Some (UnsupportedCommand (Command req)))))"

text \<open>\<^verbatim>\<open>func (s *Server) ServeConn(conn net.Conn) error\<close> with the callees above.\<close>

definition ServeConn :: "heap \<Rightarrow> Server \<Rightarrow> world \<Rightarrow> world \<times> error option outcome" where
  "ServeConn h s w = ServeConn_with NewRequest sendReply handleRequest h s w"

subsection \<open>Observations on a session\<close>

text \<open>The result the next \<^verbatim>\<open>Write\<close> on the connection will have.\<close>

definition next_result :: "Conn \<Rightarrow> error option" where
  "next_result c = (case results c of [] \<Rightarrow> None | r # rs \<Rightarrow> r)"

text \<open>The server can log: \<^verbatim>\<open>s.config\<close> and \<^verbatim>\<open>s.config.Logger\<close> are not nil.\<close>

definition has_logger :: "heap \<Rightarrow> Server \<Rightarrow> bool" where
  "has_logger h s = (case config s of None \<Rightarrow> False | Some a \<Rightarrow> Logger (h a) \<noteq> None)"

text \<open>
  Both reads of \<^verbatim>\<open>needNoAuth\<close> succeed: the method count, and as many method bytes.
\<close>

definition greeting_read :: "Reader \<Rightarrow> bool" where
  "greeting_read r =
     (case Read1 r of
        (r1, Inl err) \<Rightarrow> False
      | (r1, Inr header) \<Rightarrow>
          (case ReadAtLeast r1 (unat header) of
             (r2, Inl err) \<Rightarrow> False
           | (r2, Inr methods) \<Rightarrow> True))"

text \<open>
  The handshake of a session succeeded: the version byte was read and is 5, and
  \<^verbatim>\<open>needNoAuth\<close> returned nil.
\<close>

definition handshake_succeeded :: "world \<Rightarrow> bool" where
  "handshake_succeeded w =
     (case Read1 (bufConn w) of
        (r1, Inl err) \<Rightarrow> False
      | (r1, Inr version) \<Rightarrow>
          version = socks5Version \<and> snd (snd (needNoAuth r1 (conn w))) = None)"

text \<open>
  After a successful handshake the request was decoded, or rejected for its address type.
\<close>

definition reply_due :: "world \<Rightarrow> bool" where
  "reply_due w =
     (case Read1 (bufConn w) of
        (r1, Inl err) \<Rightarrow> False
      | (r1, Inr version) \<Rightarrow>
          version = socks5Version \<and>
          (case needNoAuth r1 (conn w) of
             (r2, c2, Some err) \<Rightarrow> False
           | (r2, c2, None) \<Rightarrow>
               (case NewRequest r2 of
                  (r3, Inl err) \<Rightarrow> err = unrecognizedAddrType
                | (r3, Inr request) \<Rightarrow> True)))"

text \<open>
  A reply message starts with the version, a reply code and the reserved 0x00 (section 6);
  the two bytes of the method selection are not a reply.
\<close>

fun reply_code :: "byte list \<Rightarrow> byte option" where
  "reply_code (v # code # rsv # bound) =
     (if v = socks5Version \<and> rsv = 0 then Some code else None)"
| "reply_code _ = None"

fun is_reply :: "event \<Rightarrow> bool" where
  "is_reply (Write p r) = (reply_code p \<noteq> None)"
| "is_reply _ = False"

definition replies :: "event list \<Rightarrow> event list" where
  "replies evs = filter is_reply evs"

text \<open>
  No relaying before a success reply: \<open>relay_guarded ok evs\<close> holds when every \<open>Relay\<close>
  in \<open>evs\<close> comes after a completed write of a reply with code 0x00, where \<open>ok\<close> tells
  whether such a write happened before \<open>evs\<close>.
\<close>

fun relay_guarded :: "bool \<Rightarrow> event list \<Rightarrow> bool" where
  "relay_guarded ok [] = True"
| "relay_guarded ok (Write p r # evs) =
     relay_guarded (ok \<or> (r = None \<and> reply_code p = Some successReply)) evs"
| "relay_guarded ok (Relay # evs) = (ok \<and> relay_guarded ok evs)"
| "relay_guarded ok (Handle req # evs) = relay_guarded ok evs"
| "relay_guarded ok (Close # evs) = relay_guarded ok evs"

text \<open>The events of a session: what \<^verbatim>\<open>ServeConn\<close> added to the connection's trace.\<close>

definition session :: "heap \<Rightarrow> Server \<Rightarrow> world \<Rightarrow> event list" where
  "session h s w = drop (length (trace (conn w))) (trace (conn (fst (ServeConn h s w))))"

subsection \<open>Example sessions\<close>

text \<open>A heap with one configuration, as \<^verbatim>\<open>New\<close> leaves it, and its server.\<close>

definition heap0 :: heap where
  "heap0 = (\<lambda>_. \<lparr>BindIP = [], Logger = Some (log_New Stdout [] LstdFlags)\<rparr>)"

definition server0 :: Server where
  "server0 = \<lparr>config = Some 0\<rparr>"

text \<open>
  A client at 192.0.2.7:40000 that sends the bytes \<open>bs\<close> and then shuts down; the
  successive writes to it return \<open>rs\<close>; dialling any destination gives a connection with
  local address 10.0.0.1:50000.
\<close>

definition client :: "net_Addr \<Rightarrow> byte list \<Rightarrow> error option list \<Rightarrow> world" where
  "client remote bs rs =
     \<lparr>bufConn = \<lparr>pending = bs, fails_with = EOF\<rparr>,
      conn = \<lparr>results = rs, trace = [], conn_RemoteAddr = remote\<rparr>,
      logged = [],
      dial = (\<lambda>_. Inr \<lparr>FQDN = None, IP = [10, 0, 0, 1], Port = 50000\<rparr>)\<rparr>"

definition tcp_peer :: net_Addr where
  "tcp_peer = TCPAddr [192, 0, 2, 7] 40000"

definition unix_peer :: net_Addr where
  "unix_peer = UnixAddr ''/run/socks.sock''"

section \<open>Properties\<close>

subsection \<open>Reads, writes and the handshake\<close>

lemma conn_Write_alt:
  "conn_Write c p =
     (c\<lparr>results := tl (results c), trace := trace c @ [Write p (next_result c)]\<rparr>, next_result c)"
  by (cases "results c") (simp_all add: conn_Write_def next_result_def)

lemma needNoAuth_greeting:
  assumes "pending r = n # ms @ rest" and "length ms = unat n"
  shows "needNoAuth r c =
           (r\<lparr>pending := rest\<rparr>,
            c\<lparr>results := tl (results c),
              trace := trace c @ [Write [socks5Version, noAuth] (next_result c)]\<rparr>,
            next_result c)"
  using assms by (simp add: needNoAuth_def Read1_def ReadAtLeast_def conn_Write_alt)

lemma needNoAuth_cases:
  "needNoAuth r c =
     (if greeting_read r
      then (fst (ReadAtLeast (fst (Read1 r)) (unat (projr (snd (Read1 r))))),
            c\<lparr>results := tl (results c),
              trace := trace c @ [Write [socks5Version, noAuth] (next_result c)]\<rparr>,
            next_result c)
      else (fst (needNoAuth r c), c, snd (snd (needNoAuth r c))))"
  by (auto simp add: needNoAuth_def greeting_read_def conn_Write_alt
      split: prod.splits sum.splits)

lemma needNoAuth_failed_read:
  "\<not> greeting_read r \<Longrightarrow> needNoAuth r c = (r', c', res) \<Longrightarrow>
     c' = c \<and> (\<exists>e. res = Some e \<and>
        (Read1 r = (r', Inl e) \<or>
         (\<exists>r1 n. Read1 r = (r1, Inr n) \<and> ReadAtLeast r1 (unat n) = (r', Inl e))))"
  by (auto simp add: needNoAuth_def greeting_read_def split: prod.splits sum.splits)

lemma needNoAuth_ok:
  "needNoAuth r c = (r', c', None) \<Longrightarrow>
     c' = c\<lparr>results := tl (results c), trace := trace c @ [Write [socks5Version, noAuth] None]\<rparr>
     \<and> next_result c = None"
  by (auto simp add: needNoAuth_def conn_Write_alt split: prod.splits sum.splits)

lemma needNoAuth_trace:
  "needNoAuth r c = (r', c', res) \<Longrightarrow>
     c' = c \<and> res \<noteq> None \<or>
     trace c' = trace c @ [Write [socks5Version, noAuth] res]"
  by (auto simp add: needNoAuth_def conn_Write_alt split: prod.splits sum.splits)

lemma Printf_conn: "Printf h s e w = Some w' \<Longrightarrow> conn w' = conn w"
  by (auto simp add: Printf_def split: option.splits)

lemma reply_code_encode_reply [simp]: "reply_code (encode_reply code a) = Some code"
  by (simp add: encode_reply_def)

text \<open>
  After a successful handshake the body of \<^verbatim>\<open>ServeConn\<close> is what follows the call of
  \<^verbatim>\<open>needNoAuth\<close>.
\<close>

lemma ServeConn_body_after_handshake:
  assumes "Read1 (bufConn w) = (r1, Inr socks5Version)"
    and "needNoAuth r1 (conn w) = (r2, c2, None)"
  shows "ServeConn_body nr sr hr h s w =
     (case nr r2 of
        (r3, Inl err) \<Rightarrow>
          if err = unrecognizedAddrType then
            (case sr c2 addrTypeNotSupported None of
               (c3, Some err') \<Rightarrow>
                 (w\<lparr>bufConn := r3, conn := c3\<rparr>, Return (Some (FailedToSendReply err')))
             | (c3, None) \<Rightarrow>
                 (w\<lparr>bufConn := r3, conn := c3\<rparr>, Return (Some (FailedToReadDestAddr err))))
          else (w\<lparr>bufConn := r3, conn := c2\<rparr>, Return (Some (FailedToReadDestAddr err)))
      | (r3, Inr request) \<Rightarrow>
          (let request' =
                 (case conn_RemoteAddr c2 of
                    TCPAddr ip port \<Rightarrow>
                      request\<lparr>RemoteAddr := Some \<lparr>FQDN = None, IP = ip, Port = port\<rparr>\<rparr>
                  | _ \<Rightarrow> request);
               w3 = w\<lparr>bufConn := r3, conn := c2\<lparr>trace := trace c2 @ [Handle request']\<rparr>\<rparr>
           in (case hr request' w3 of
                 (w4, Some err) \<Rightarrow>
                   (case Printf h s (SocksError (FailedToHandleRequest err)) w4 of
                      None \<Rightarrow> (w4, Panic)
                    | Some w5 \<Rightarrow> (w5, Return (Some (FailedToHandleRequest err))))
               | (w4, None) \<Rightarrow> (w4, Return None))))"
  unfolding ServeConn_body_def
  by (simp only: assms prod.case sum.case option.case simp_thms if_False)

subsection \<open>The events of a session, path by path\<close>

lemma session_read_failed:
  assumes "Read1 (bufConn w) = (r1, Inl e)"
  shows "session h s w = [Close]"
  using assms
  by (simp add: session_def ServeConn_def ServeConn_with_def ServeConn_body_def conn_Close_def
      Printf_def split: option.splits)

lemma session_wrong_version:
  assumes "Read1 (bufConn w) = (r1, Inr v)" and "v \<noteq> socks5Version"
  shows "session h s w = [Close]"
  using assms
  by (simp add: session_def ServeConn_def ServeConn_with_def ServeConn_body_def conn_Close_def
      Printf_def split: option.splits)

lemma session_handshake_failed:
  assumes "Read1 (bufConn w) = (r1, Inr socks5Version)"
    and "needNoAuth r1 (conn w) = (r2, c2, Some e)"
  shows "session h s w = [Close] \<or> session h s w = [Write [5, 0] (Some e), Close]"
  using assms needNoAuth_trace [OF assms(2)]
  by (auto simp add: session_def ServeConn_def ServeConn_with_def ServeConn_body_def
      conn_Close_def Printf_def socks5Version_def noAuth_def split: option.splits)

lemma session_decode_failed:
  assumes "Read1 (bufConn w) = (r1, Inr socks5Version)"
    and "needNoAuth r1 (conn w) = (r2, c2, None)"
    and "NewRequest r2 = (r3, Inl err)"
  shows "session h s w =
           (if err = unrecognizedAddrType
            then [Write [5, 0] None, Write [5, 8, 0, 1, 0, 0, 0, 0, 0, 0] (next_result c2), Close]
            else [Write [5, 0] None, Close])"
  using ServeConn_body_after_handshake [OF assms(1,2)] needNoAuth_ok [OF assms(2)] assms(3)
  by (simp add: session_def ServeConn_def ServeConn_with_def conn_Close_def sendReply_def
      conn_Write_alt encode_reply_def encode_bound_def zero_bound_def addrTypeNotSupported_def
      socks5Version_def noAuth_def next_result_def split: option.splits)

lemma handleRequest_trace:
  "\<exists>code a r.
     trace (conn (fst (handleRequest req w))) = trace (conn w) @ [Write (encode_reply code a) r]
   \<or> trace (conn (fst (handleRequest req w))) =
       trace (conn w) @ [Write (encode_reply successReply a) None, Relay]"
  by (auto simp add: handleRequest_def sendReply_def conn_Write_alt
      split: sum.splits option.splits prod.splits)

lemma session_handled:
  assumes "Read1 (bufConn w) = (r1, Inr socks5Version)"
    and "needNoAuth r1 (conn w) = (r2, c2, None)"
    and "NewRequest r2 = (r3, Inr req)"
  shows "\<exists>req' code a r.
           session h s w = [Write [5, 0] None, Handle req', Write (encode_reply code a) r, Close]
         \<or> session h s w =
             [Write [5, 0] None, Handle req', Write (encode_reply successReply a) None, Relay,
              Close]"
proof -
  define req' where "req' =
    (case conn_RemoteAddr c2 of
       TCPAddr ip port \<Rightarrow> req\<lparr>RemoteAddr := Some \<lparr>FQDN = None, IP = ip, Port = port\<rparr>\<rparr>
     | _ \<Rightarrow> req)"
  define w3 where "w3 = w\<lparr>bufConn := r3, conn := c2\<lparr>trace := trace c2 @ [Handle req']\<rparr>\<rparr>"
  have c2: "trace c2 = trace (conn w) @ [Write [5, 0] None]"
    using needNoAuth_ok [OF assms(2)] by (simp add: socks5Version_def noAuth_def)
  have body: "trace (conn (fst (ServeConn_body NewRequest sendReply handleRequest h s w))) =
              trace (conn (fst (handleRequest req' w3)))"
    using ServeConn_body_after_handshake [OF assms(1,2), of NewRequest sendReply handleRequest h s]
      assms(3)
    by (auto simp add: Let_def req'_def w3_def split: prod.splits option.splits
        dest: Printf_conn)
  have w3: "trace (conn w3) = trace (conn w) @ [Write [5, 0] None, Handle req']"
    by (simp add: w3_def c2)
  from handleRequest_trace [of req' w3] obtain code a r where
    "trace (conn (fst (handleRequest req' w3))) =
       trace (conn w3) @ [Write (encode_reply code a) r]
     \<or> trace (conn (fst (handleRequest req' w3))) =
       trace (conn w3) @ [Write (encode_reply successReply a) None, Relay]"
    by blast
  then have "session h s w = [Write [5, 0] None, Handle req', Write (encode_reply code a) r, Close]
         \<or> session h s w =
             [Write [5, 0] None, Handle req', Write (encode_reply successReply a) None, Relay,
              Close]"
    using body w3
    by (auto simp add: session_def ServeConn_def ServeConn_with_def conn_Close_def
        split: prod.splits)
  then show ?thesis by blast
qed

text \<open>The definitions a concrete session is evaluated with.\<close>

lemmas run_defs =
  ServeConn_def ServeConn_with_def ServeConn_body_def needNoAuth_def Read1_def
  ReadAtLeast_def conn_Write_def conn_Close_def NewRequest_def decode_address_def
  decode_port_def sendReply_def encode_reply_def encode_bound_def encode_port_def
  zero_bound_def handleRequest_def Printf_def client_def heap0_def server0_def tcp_peer_def
  unix_peer_def socks5Version_def noAuth_def addrTypeNotSupported_def successReply_def
  commandNotSupported_def ConnectCommand_def session_def log_New_def Let_def

subsection \<open>\<^verbatim>\<open>New\<close>\<close>

text \<open>
  C9. For a non-nil \<^verbatim>\<open>*Config\<close>, \<^verbatim>\<open>New\<close> returns a non-nil server that keeps the
  caller's pointer, and a nil error. The configuration the pointer refers to is changed in
  place exactly when its logger is nil: it then gets the logger
  \<^verbatim>\<open>log.New(os.Stdout, "", log.LstdFlags)\<close>, which writes to standard output; every
  other configuration, and every other field, is left as it was.
\<close>

theorem New_installs_default_logger:
  "New h (Some a) =
     Return (if Logger (h a) = None
             then h(a := (h a)\<lparr>Logger := Some \<lparr>out = Stdout, prefix = [], flag = LstdFlags\<rparr>\<rparr>)
             else h,
             Some \<lparr>config = Some a\<rparr>, None)"
  by (simp add: New_def log_New_def Let_def)

text \<open>
  An instance: a heap whose configurations have no logger. After \<^verbatim>\<open>New\<close> on address 0
  the configuration there has the default logger, the one at address 1 still has none.
\<close>

theorem New_installs_default_logger_witness:
  "\<exists>h' srv. New (\<lambda>_. \<lparr>BindIP = [], Logger = None\<rparr>) (Some 0) = Return (h', Some srv, None)
     \<and> config srv = Some 0
     \<and> Logger (h' 0) = Some \<lparr>out = Stdout, prefix = [], flag = 3\<rparr>
     \<and> Logger (h' 1) = None"
  using New_installs_default_logger [of "\<lambda>_. \<lparr>BindIP = [], Logger = None\<rparr>" 0]
  by (simp add: LstdFlags_def)

subsection \<open>Closing the connection\<close>

text \<open>
  C6. Whatever the callees do and however the body of \<^verbatim>\<open>ServeConn\<close> is left (a failed
  version read, a wrong version, a failed handshake, a failed request decode, a failed or a
  successful request, or a panic of the logger), the last thing that happens to the
  connection is \<^verbatim>\<open>Close\<close>, after everything the body did.
\<close>

theorem ServeConn_always_closes:
  "trace (conn (fst (ServeConn_with newRequest sendReply' handleRequest' h s w))) =
     trace (conn (fst (ServeConn_body newRequest sendReply' handleRequest' h s w))) @ [Close]"
  by (simp add: ServeConn_with_def conn_Close_def split: prod.split)

subsection \<open>The negotiator\<close>

text \<open>
  C7. \<^verbatim>\<open>needNoAuth\<close> writes once, and only when both of its reads succeeded: then the
  connection's trace grows by exactly one \<^verbatim>\<open>Write\<close> of the two bytes 5, 0, whose result
  is the result of \<^verbatim>\<open>needNoAuth\<close>. When the read of the method count or the read of the
  methods fails, the connection is untouched and the error of the failed read is returned.
\<close>

theorem needNoAuth_writes_once_after_reads:
  assumes "needNoAuth r w = (r', w', res)"
  shows "(greeting_read r \<longrightarrow>
            trace w' = trace w @ [Write [socks5Version, noAuth] res])
       \<and> (\<not> greeting_read r \<longrightarrow>
            w' = w \<and>
            (\<exists>err. res = Some err \<and>
               (Read1 r = (r', Inl err) \<or>
                (\<exists>r1 n. Read1 r = (r1, Inr n) \<and> ReadAtLeast r1 (unat n) = (r', Inl err)))))"
proof (cases "greeting_read r")
  case True
  with assms needNoAuth_cases [of r w] show ?thesis by auto
next
  case False
  with assms needNoAuth_failed_read [of r w r' w' res] show ?thesis by simp
qed

text \<open>
  Two instances: a greeting with two methods, after which 5, 0 is written once; and a
  greeting that announces two methods and brings none, after which nothing is written and
  the short read is returned.
\<close>

theorem needNoAuth_writes_once_after_reads_witness:
  "greeting_read \<lparr>pending = [2, 0, 2, 5, 1], fails_with = EOF\<rparr>
   \<and> needNoAuth \<lparr>pending = [2, 0, 2, 5, 1], fails_with = EOF\<rparr>
        \<lparr>results = [], trace = [], conn_RemoteAddr = tcp_peer\<rparr> =
       (\<lparr>pending = [5, 1], fails_with = EOF\<rparr>,
        \<lparr>results = [], trace = [Write [5, 0] None], conn_RemoteAddr = tcp_peer\<rparr>, None)
   \<and> \<not> greeting_read \<lparr>pending = [2, 0], fails_with = EOF\<rparr>
   \<and> needNoAuth \<lparr>pending = [2, 0], fails_with = EOF\<rparr>
        \<lparr>results = [], trace = [], conn_RemoteAddr = tcp_peer\<rparr> =
       (\<lparr>pending = [], fails_with = EOF\<rparr>,
        \<lparr>results = [], trace = [], conn_RemoteAddr = tcp_peer\<rparr>, Some ErrUnexpectedEOF)"
proof -
  let ?c = "\<lparr>results = [], trace = [], conn_RemoteAddr = tcp_peer\<rparr>"
  have a: "needNoAuth \<lparr>pending = [2, 0, 2, 5, 1], fails_with = EOF\<rparr> ?c =
       (\<lparr>pending = [5, 1], fails_with = EOF\<rparr>,
        \<lparr>results = [], trace = [Write [5, 0] None], conn_RemoteAddr = tcp_peer\<rparr>, None)"
    by (simp add: needNoAuth_def Read1_def ReadAtLeast_def conn_Write_def socks5Version_def
        noAuth_def)
  have b: "needNoAuth \<lparr>pending = [2, 0], fails_with = EOF\<rparr> ?c =
       (\<lparr>pending = [], fails_with = EOF\<rparr>, ?c, Some ErrUnexpectedEOF)"
    by (simp add: needNoAuth_def Read1_def ReadAtLeast_def)
  have g: "greeting_read \<lparr>pending = [2, 0, 2, 5, 1], fails_with = EOF\<rparr>"
    by (simp add: greeting_read_def Read1_def ReadAtLeast_def)
  have ng: "\<not> greeting_read \<lparr>pending = [2, 0], fails_with = EOF\<rparr>"
    by (simp add: greeting_read_def Read1_def ReadAtLeast_def)
  from needNoAuth_writes_once_after_reads [OF a] needNoAuth_writes_once_after_reads [OF b]
    a b g ng
  show ?thesis by simp
qed

text \<open>
  C2. A greeting is the version byte 5, a method count \<open>n\<close> (0 to 255) and \<open>n\<close> method
  bytes of any value, followed by whatever the client sends next. The version read of
  \<^verbatim>\<open>ServeConn\<close> yields 5, so its check passes; \<^verbatim>\<open>needNoAuth\<close> then consumes the count
  and exactly the \<open>n\<close> method bytes, leaving the reader at what follows, and makes one
  \<^verbatim>\<open>Write\<close> of the two bytes 5, 0, whose result it returns.
\<close>

theorem negotiator_replies_no_auth:
  assumes "pending r = socks5Version # n # ms @ rest" and "length ms = unat n"
  shows "Read1 r = (r\<lparr>pending := n # ms @ rest\<rparr>, Inr socks5Version)
       \<and> fst (needNoAuth (r\<lparr>pending := n # ms @ rest\<rparr>) w) = r\<lparr>pending := rest\<rparr>
       \<and> trace (fst (snd (needNoAuth (r\<lparr>pending := n # ms @ rest\<rparr>) w))) =
           trace w @ [Write [5, 0] (next_result w)]
       \<and> snd (snd (needNoAuth (r\<lparr>pending := n # ms @ rest\<rparr>) w)) = next_result w"
proof -
  have "pending (r\<lparr>pending := n # ms @ rest\<rparr>) = n # ms @ rest" by simp
  from needNoAuth_greeting [OF this assms(2)] assms(1)
  show ?thesis by (simp add: Read1_def socks5Version_def noAuth_def)
qed

text \<open>An instance: the greeting 5, 2, 0, 2 followed by the bytes 5, 1.\<close>

theorem negotiator_replies_no_auth_witness:
  "length [0, 2 :: byte] = unat (2 :: byte)
   \<and> Read1 \<lparr>pending = [5, 2, 0, 2, 5, 1], fails_with = EOF\<rparr> =
       (\<lparr>pending = [2, 0, 2, 5, 1], fails_with = EOF\<rparr>, Inr 5)
   \<and> needNoAuth \<lparr>pending = [2, 0, 2, 5, 1], fails_with = EOF\<rparr>
        \<lparr>results = [], trace = [], conn_RemoteAddr = tcp_peer\<rparr> =
       (\<lparr>pending = [5, 1], fails_with = EOF\<rparr>,
        \<lparr>results = [], trace = [Write [5, 0] None], conn_RemoteAddr = tcp_peer\<rparr>, None)"
proof -
  let ?r = "\<lparr>pending = [5, 2, 0, 2, 5, 1], fails_with = EOF\<rparr>"
  let ?c = "\<lparr>results = [], trace = [], conn_RemoteAddr = tcp_peer\<rparr>"
  have p: "pending ?r = socks5Version # 2 # [0, 2] @ [5, 1]"
    by (simp add: socks5Version_def)
  have l: "length [0, 2 :: byte] = unat (2 :: byte)" by simp
  have n: "needNoAuth \<lparr>pending = [2, 0, 2, 5, 1], fails_with = EOF\<rparr> ?c =
       (\<lparr>pending = [5, 1], fails_with = EOF\<rparr>,
        \<lparr>results = [], trace = [Write [5, 0] None], conn_RemoteAddr = tcp_peer\<rparr>, None)"
    by (simp add: needNoAuth_def Read1_def ReadAtLeast_def conn_Write_def socks5Version_def
        noAuth_def)
  from negotiator_replies_no_auth [OF p l, of ?c] n l
  show ?thesis by (simp add: socks5Version_def)
qed

subsection \<open>Sessions that fail before a request is handled\<close>

text \<open>
  C4. When the first byte of the input is not 5, \<^verbatim>\<open>ServeConn\<close> consumes that byte,
  logs and returns the error \<^verbatim>\<open>"Unsupported SOCKS version: [b]"\<close>, and the only thing
  that happens to the connection is \<^verbatim>\<open>Close\<close>: nothing is written to the client, and
  none of the callees runs. The server is one that can log (its \<^verbatim>\<open>config\<close> and the
  logger there are not nil, as for every server made by \<^verbatim>\<open>New\<close>); the other state of
  the session is unchanged.
\<close>

theorem wrong_version_no_reply:
  assumes "pending (bufConn w) = b # rest" and "b \<noteq> socks5Version" and "has_logger h s"
  shows "ServeConn_with newRequest sendReply' handleRequest' h s w =
           (w\<lparr>bufConn := (bufConn w)\<lparr>pending := rest\<rparr>,
              logged := logged w @ [SocksError (UnsupportedVersion [b])],
              conn := (conn w)\<lparr>trace := trace (conn w) @ [Close]\<rparr>\<rparr>,
            Return (Some (UnsupportedVersion [b])))"
  using assms
  by (auto simp add: ServeConn_with_def ServeConn_body_def Read1_def Printf_def has_logger_def
      conn_Close_def split: option.splits)

text \<open>An instance: a client that opens with version 4.\<close>

theorem wrong_version_no_reply_witness:
  "has_logger heap0 server0
   \<and> snd (ServeConn heap0 server0 (client tcp_peer [4, 1, 0] [])) =
       Return (Some (UnsupportedVersion [4]))
   \<and> session heap0 server0 (client tcp_peer [4, 1, 0] []) = [Close]
   \<and> logged (fst (ServeConn heap0 server0 (client tcp_peer [4, 1, 0] []))) =
       [SocksError (UnsupportedVersion [4])]"
proof -
  have p: "pending (bufConn (client tcp_peer [4, 1, 0] [])) = 4 # [1, 0]"
    by (simp add: client_def)
  have v: "(4 :: byte) \<noteq> socks5Version"
    by (simp add: socks5Version_def)
  have l: "has_logger heap0 server0"
    by (simp add: has_logger_def heap0_def server0_def)
  from wrong_version_no_reply [OF p v l, of NewRequest sendReply handleRequest] l
  show ?thesis by (simp add: ServeConn_def session_def client_def)
qed

text \<open>
  C5. After a successful handshake, when decoding the request fails with any error other
  than \<open>unrecognizedAddrType\<close> (a short read, an I/O error, a malformed frame),
  \<^verbatim>\<open>ServeConn\<close> returns \<^verbatim>\<open>"Failed to read destination address: err"\<close>; the trace of
  the connection holds the method selection of the handshake and then \<^verbatim>\<open>Close\<close>: no
  reply is written. This holds for every request decoder.
\<close>

theorem decode_failure_no_reply:
  assumes "Read1 (bufConn w) = (r1, Inr socks5Version)"
    and "needNoAuth r1 (conn w) = (r2, c2, None)"
    and "newRequest r2 = (r3, Inl err)"
    and "err \<noteq> unrecognizedAddrType"
  shows "ServeConn_with newRequest sendReply' handleRequest' h s w =
           (w\<lparr>bufConn := r3,
              conn := (conn w)\<lparr>results := tl (results (conn w)),
                        trace := trace (conn w) @ [Write [5, 0] None, Close]\<rparr>\<rparr>,
            Return (Some (FailedToReadDestAddr err)))"
  using ServeConn_body_after_handshake [OF assms(1,2)] needNoAuth_ok [OF assms(2)] assms(3,4)
  by (simp add: ServeConn_with_def conn_Close_def socks5Version_def noAuth_def)

text \<open>An instance: the request stops after the command byte.\<close>

theorem decode_failure_no_reply_witness:
  "NewRequest \<lparr>pending = [5, 1], fails_with = EOF\<rparr> =
     (\<lparr>pending = [], fails_with = EOF\<rparr>, Inl EOF)
   \<and> snd (ServeConn heap0 server0 (client tcp_peer [5, 1, 0, 5, 1] [])) =
       Return (Some (FailedToReadDestAddr EOF))
   \<and> session heap0 server0 (client tcp_peer [5, 1, 0, 5, 1] []) = [Write [5, 0] None, Close]"
proof -
  let ?w = "client tcp_peer [5, 1, 0, 5, 1] []"
  have a: "Read1 (bufConn ?w) = (\<lparr>pending = [1, 0, 5, 1], fails_with = EOF\<rparr>, Inr socks5Version)"
    by (simp add: run_defs)
  have b: "needNoAuth \<lparr>pending = [1, 0, 5, 1], fails_with = EOF\<rparr> (conn ?w) =
             (\<lparr>pending = [5, 1], fails_with = EOF\<rparr>,
              \<lparr>results = [], trace = [Write [5, 0] None], conn_RemoteAddr = tcp_peer\<rparr>, None)"
    by (simp add: run_defs)
  have c: "NewRequest \<lparr>pending = [5, 1], fails_with = EOF\<rparr> =
             (\<lparr>pending = [], fails_with = EOF\<rparr>, Inl EOF)"
    by (simp add: run_defs)
  have d: "EOF \<noteq> unrecognizedAddrType" by simp
  from decode_failure_no_reply
    [where newRequest = NewRequest and sendReply' = sendReply
       and handleRequest' = handleRequest and h = heap0 and s = server0, OF a b c d] c
  show ?thesis by (simp add: ServeConn_def session_def client_def)
qed

text \<open>
  C10. After a successful handshake, when decoding the request fails with
  \<open>unrecognizedAddrType\<close>, \<^verbatim>\<open>ServeConn\<close> calls \<^verbatim>\<open>sendReply\<close> with the code
  \<^verbatim>\<open>addrTypeNotSupported\<close> and no address, closes, and returns a non-nil error in
  either case: \<^verbatim>\<open>"Failed to read destination address: ..."\<close> around the decode error
  when the reply was sent, \<^verbatim>\<open>"Failed to send reply: ..."\<close> around the error of
  \<^verbatim>\<open>sendReply\<close> when it was not. This holds for every request decoder and every
  \<^verbatim>\<open>sendReply\<close>.
\<close>

theorem addr_type_failure_result:
  assumes "Read1 (bufConn w) = (r1, Inr socks5Version)"
    and "needNoAuth r1 (conn w) = (r2, c2, None)"
    and "newRequest r2 = (r3, Inl unrecognizedAddrType)"
    and "sendReply' c2 addrTypeNotSupported None = (c3, res)"
  shows "ServeConn_with newRequest sendReply' handleRequest' h s w =
           (w\<lparr>bufConn := r3, conn := conn_Close c3\<rparr>,
            Return (Some (case res of
                            None \<Rightarrow> FailedToReadDestAddr unrecognizedAddrType
                          | Some err' \<Rightarrow> FailedToSendReply err')))"
  using ServeConn_body_after_handshake [OF assms(1,2)] assms(3,4)
  by (simp add: ServeConn_with_def split: option.splits)

text \<open>
  Two instances with address type 9: one where the reply is written, one where the write
  of the reply fails.
\<close>

theorem addr_type_failure_result_witness:
  "snd (ServeConn heap0 server0 (client tcp_peer [5, 1, 0, 5, 1, 0, 9] [])) =
     Return (Some (FailedToReadDestAddr unrecognizedAddrType))
   \<and> session heap0 server0 (client tcp_peer [5, 1, 0, 5, 1, 0, 9] []) =
       [Write [5, 0] None, Write [5, 8, 0, 1, 0, 0, 0, 0, 0, 0] None, Close]
   \<and> snd (ServeConn heap0 server0
            (client tcp_peer [5, 1, 0, 5, 1, 0, 9] [None, Some (IOError 32)])) =
       Return (Some (FailedToSendReply (IOError 32)))
   \<and> session heap0 server0 (client tcp_peer [5, 1, 0, 5, 1, 0, 9] [None, Some (IOError 32)]) =
       [Write [5, 0] None, Write [5, 8, 0, 1, 0, 0, 0, 0, 0, 0] (Some (IOError 32)), Close]"
proof -
  let ?w = "client tcp_peer [5, 1, 0, 5, 1, 0, 9] []"
  let ?v = "client tcp_peer [5, 1, 0, 5, 1, 0, 9] [None, Some (IOError 32)]"
  let ?r1 = "\<lparr>pending = [1, 0, 5, 1, 0, 9], fails_with = EOF\<rparr>"
  let ?r2 = "\<lparr>pending = [5, 1, 0, 9], fails_with = EOF\<rparr>"
  let ?r3 = "\<lparr>pending = [], fails_with = EOF\<rparr>"
  have a: "Read1 (bufConn ?w) = (?r1, Inr socks5Version)"
    by (simp add: run_defs)
  have b: "needNoAuth ?r1 (conn ?w) =
             (?r2, \<lparr>results = [], trace = [Write [5, 0] None], conn_RemoteAddr = tcp_peer\<rparr>, None)"
    by (simp add: run_defs)
  have c: "NewRequest ?r2 = (?r3, Inl unrecognizedAddrType)"
    by (simp add: run_defs)
  have d: "sendReply \<lparr>results = [], trace = [Write [5, 0] None], conn_RemoteAddr = tcp_peer\<rparr>
             addrTypeNotSupported None =
             (\<lparr>results = [],
               trace = [Write [5, 0] None, Write [5, 8, 0, 1, 0, 0, 0, 0, 0, 0] None],
               conn_RemoteAddr = tcp_peer\<rparr>, None)"
    by (simp add: run_defs)
  have a': "Read1 (bufConn ?v) = (?r1, Inr socks5Version)"
    by (simp add: run_defs)
  have b': "needNoAuth ?r1 (conn ?v) =
             (?r2, \<lparr>results = [Some (IOError 32)], trace = [Write [5, 0] None],
                    conn_RemoteAddr = tcp_peer\<rparr>, None)"
    by (simp add: run_defs)
  have d': "sendReply \<lparr>results = [Some (IOError 32)], trace = [Write [5, 0] None],
                       conn_RemoteAddr = tcp_peer\<rparr>
             addrTypeNotSupported None =
             (\<lparr>results = [],
               trace = [Write [5, 0] None,
                        Write [5, 8, 0, 1, 0, 0, 0, 0, 0, 0] (Some (IOError 32))],
               conn_RemoteAddr = tcp_peer\<rparr>, Some (IOError 32))"
    by (simp add: run_defs)
  note inst = addr_type_failure_result
    [where newRequest = NewRequest and sendReply' = sendReply
       and handleRequest' = handleRequest and h = heap0 and s = server0]
  from inst [OF a b c d] inst [OF a' b' c d']
  show ?thesis by (simp add: ServeConn_def session_def client_def conn_Close_def)
qed

subsection \<open>Unrecognized address types\<close>





subsection \<open>The remote address of the client\<close>

text \<open>
  C8, as amended. After a successful handshake and a successful decode, on a connection
  whose remote address is a \<^verbatim>\<open>*net.TCPAddr\<close> with address \<open>ip\<close> and port \<open>port\<close>,
  \<^verbatim>\<open>ServeConn\<close> hands to \<^verbatim>\<open>handleRequest\<close> the decoded request with \<open>RemoteAddr\<close>
  set to \<^verbatim>\<open>&AddrSpec{IP: ip, Port: port}\<close>; the rest of the session is what
  \<^verbatim>\<open>handleRequest\<close> does with it, the log line on failure, and \<^verbatim>\<open>Close\<close>. This holds
  for every request decoder and every handler.
\<close>

theorem remote_addr_attached_for_tcp:
  assumes "Read1 (bufConn w) = (r1, Inr socks5Version)"
    and "needNoAuth r1 (conn w) = (r2, c2, None)"
    and "newRequest r2 = (r3, Inr request)"
    and "conn_RemoteAddr (conn w) = TCPAddr ip port"
    and "request' = request\<lparr>RemoteAddr := Some \<lparr>FQDN = None, IP = ip, Port = port\<rparr>\<rparr>"
  shows "ServeConn_with newRequest sendReply' handleRequest' h s w =
     (case handleRequest' request'
             (w\<lparr>bufConn := r3, conn := c2\<lparr>trace := trace c2 @ [Handle request']\<rparr>\<rparr>) of
        (w4, None) \<Rightarrow> (w4\<lparr>conn := conn_Close (conn w4)\<rparr>, Return None)
      | (w4, Some err) \<Rightarrow>
          (case Printf h s (SocksError (FailedToHandleRequest err)) w4 of
             None \<Rightarrow> (w4\<lparr>conn := conn_Close (conn w4)\<rparr>, Panic)
           | Some w5 \<Rightarrow>
               (w5\<lparr>conn := conn_Close (conn w5)\<rparr>, Return (Some (FailedToHandleRequest err)))))"
proof -
  have "conn_RemoteAddr c2 = TCPAddr ip port"
    using needNoAuth_ok [OF assms(2)] assms(4) by simp
  with ServeConn_body_after_handshake [OF assms(1,2)] assms(3,5) show ?thesis
    by (simp add: ServeConn_with_def Let_def split: prod.splits option.splits)
qed

text \<open>An instance: a CONNECT to 127.0.0.1:80 from the TCP client 192.0.2.7:40000.\<close>

theorem remote_addr_attached_for_tcp_witness:
  "session heap0 server0 (client tcp_peer [5, 1, 0, 5, 1, 0, 1, 127, 0, 0, 1, 0, 80] []) =
     [Write [5, 0] None,
      Handle \<lparr>Command = 1, DestAddr = \<lparr>FQDN = None, IP = [127, 0, 0, 1], Port = 80\<rparr>,
              RemoteAddr = Some \<lparr>FQDN = None, IP = [192, 0, 2, 7], Port = 40000\<rparr>\<rparr>,
      Write [5, 0, 0, 1, 10, 0, 0, 1, 195, 80] None, Relay, Close]"
proof -
  let ?w = "client tcp_peer [5, 1, 0, 5, 1, 0, 1, 127, 0, 0, 1, 0, 80] []"
  let ?req = "\<lparr>Command = 1, DestAddr = \<lparr>FQDN = None, IP = [127, 0, 0, 1], Port = 80\<rparr>,
               RemoteAddr = None\<rparr>"
  let ?c2 = "\<lparr>results = [], trace = [Write [5, 0] None], conn_RemoteAddr = tcp_peer\<rparr>"
  have a: "Read1 (bufConn ?w) =
             (\<lparr>pending = [1, 0, 5, 1, 0, 1, 127, 0, 0, 1, 0, 80], fails_with = EOF\<rparr>,
              Inr socks5Version)"
    by (simp add: run_defs)
  have b: "needNoAuth \<lparr>pending = [1, 0, 5, 1, 0, 1, 127, 0, 0, 1, 0, 80], fails_with = EOF\<rparr>
             (conn ?w) =
             (\<lparr>pending = [5, 1, 0, 1, 127, 0, 0, 1, 0, 80], fails_with = EOF\<rparr>, ?c2, None)"
    by (simp add: run_defs)
  have c: "NewRequest \<lparr>pending = [5, 1, 0, 1, 127, 0, 0, 1, 0, 80], fails_with = EOF\<rparr> =
             (\<lparr>pending = [], fails_with = EOF\<rparr>, Inr ?req)"
    by (simp add: run_defs)
  have d: "conn_RemoteAddr (conn ?w) = TCPAddr [192, 0, 2, 7] 40000"
    by (simp add: run_defs)
  from remote_addr_attached_for_tcp
         [where newRequest = NewRequest and sendReply' = sendReply
            and handleRequest' = handleRequest and h = heap0 and s = server0,
          OF a b c d refl]
  show ?thesis
    by (simp add: ServeConn_def session_def client_def handleRequest_def sendReply_def
        conn_Write_def conn_Close_def encode_reply_def encode_bound_def encode_port_def
        successReply_def ConnectCommand_def socks5Version_def)
qed

text \<open>
  C8 as stated ("for every successfully decoded request") fails on a connection whose
  remote address is not a \<^verbatim>\<open>*net.TCPAddr\<close>: the type assertion at line 92 does not hold,
  and the same CONNECT arriving over a Unix domain socket is handed to
  \<^verbatim>\<open>handleRequest\<close> with \<open>RemoteAddr\<close> nil.
\<close>

theorem remote_addr_not_attached_counterexample:
  "conn_RemoteAddr (conn (client unix_peer [5, 1, 0, 5, 1, 0, 1, 127, 0, 0, 1, 0, 80] [])) =
     UnixAddr ''/run/socks.sock''
   \<and> session heap0 server0 (client unix_peer [5, 1, 0, 5, 1, 0, 1, 127, 0, 0, 1, 0, 80] []) =
     [Write [5, 0] None,
      Handle \<lparr>Command = 1, DestAddr = \<lparr>FQDN = None, IP = [127, 0, 0, 1], Port = 80\<rparr>,
              RemoteAddr = None\<rparr>,
      Write [5, 0, 0, 1, 10, 0, 0, 1, 195, 80] None, Relay, Close]"
  by (simp add: run_defs)

subsection \<open>Replies and relaying in a session\<close>

text \<open>
  C1, as amended. In every session of \<^verbatim>\<open>ServeConn\<close>, a reply is written if and only if
  the handshake succeeded and the request was either decoded or rejected with
  \<open>unrecognizedAddrType\<close>, so in particular only if the handshake succeeded; at most one
  reply is written; and relaying starts only after a completed write of a success reply.
  A reply counts as written when its \<^verbatim>\<open>Write\<close> is issued, whatever the write returns.
\<close>

theorem reply_discipline:
  "(replies (session h s w) \<noteq> []) = reply_due w
   \<and> (reply_due w \<longrightarrow> handshake_succeeded w)
   \<and> length (replies (session h s w)) \<le> 1
   \<and> relay_guarded False (session h s w)"
proof -
  obtain r1 v1 where R: "Read1 (bufConn w) = (r1, v1)"
    by (cases "Read1 (bufConn w)")
  show ?thesis
  proof (cases v1)
    case (Inl e)
    with R session_read_failed [of w r1 e h s] show ?thesis
      by (simp add: replies_def reply_due_def handshake_succeeded_def)
  next
    case (Inr v)
    show ?thesis
    proof (cases "v = socks5Version")
      case False
      with R Inr session_wrong_version [of w r1 v h s] show ?thesis
        by (simp add: replies_def reply_due_def handshake_succeeded_def)
    next
      case True
      with R Inr have R5: "Read1 (bufConn w) = (r1, Inr socks5Version)" by simp
      obtain r2 c2 res where N: "needNoAuth r1 (conn w) = (r2, c2, res)"
        by (cases "needNoAuth r1 (conn w)") auto
      show ?thesis
      proof (cases res)
        case (Some e)
        with session_handshake_failed [OF R5, of r2 c2 e h s] N R5 show ?thesis
          by (auto simp add: replies_def reply_due_def handshake_succeeded_def)
      next
        case None
        with N have N0: "needNoAuth r1 (conn w) = (r2, c2, None)" by simp
        have hs: "handshake_succeeded w"
          using R5 N0 by (simp add: handshake_succeeded_def)
        obtain r3 q where Q: "NewRequest r2 = (r3, q)"
          by (cases "NewRequest r2")
        show ?thesis
        proof (cases q)
          case (Inl err)
          with Q session_decode_failed [OF R5 N0, of r3 err h s] R5 N0 hs show ?thesis
            by (simp add: replies_def reply_due_def socks5Version_def)
        next
          case (Inr req)
          with Q have Q': "NewRequest r2 = (r3, Inr req)" by simp
          have due: "reply_due w"
            using R5 N0 Q' by (simp add: reply_due_def)
          from session_handled [OF R5 N0 Q', of h s] due hs show ?thesis
            by (auto simp add: replies_def)
        qed
      qed
    qed
  qed
qed

text \<open>An instance: a CONNECT that is decoded, answered with one success reply and relayed.\<close>

theorem reply_discipline_witness:
  "reply_due (client tcp_peer [5, 1, 0, 5, 1, 0, 1, 127, 0, 0, 1, 0, 80] [])
   \<and> handshake_succeeded (client tcp_peer [5, 1, 0, 5, 1, 0, 1, 127, 0, 0, 1, 0, 80] [])
   \<and> length (replies (session heap0 server0
        (client tcp_peer [5, 1, 0, 5, 1, 0, 1, 127, 0, 0, 1, 0, 80] []))) = 1
   \<and> relay_guarded False (session heap0 server0
        (client tcp_peer [5, 1, 0, 5, 1, 0, 1, 127, 0, 0, 1, 0, 80] []))"
proof -
  let ?w = "client tcp_peer [5, 1, 0, 5, 1, 0, 1, 127, 0, 0, 1, 0, 80] []"
  have due: "reply_due ?w"
    by (simp add: reply_due_def run_defs)
  from reply_discipline [of heap0 server0 ?w] due
  have "replies (session heap0 server0 ?w) \<noteq> []"
    and "length (replies (session heap0 server0 ?w)) \<le> 1"
    and "handshake_succeeded ?w"
    and "relay_guarded False (session heap0 server0 ?w)"
    by simp_all
  with due show ?thesis
    by (cases "replies (session heap0 server0 ?w)") simp_all
qed

text \<open>
  C1 as stated ("a reply is sent if and only if the handshake succeeded; exactly one reply
  is sent per session") fails for a client that completes the handshake and then shuts
  down: the handshake succeeds, the request decode fails with \<open>EOF\<close>, and the session
  ends without any reply.
\<close>

theorem reply_iff_handshake_counterexample:
  "handshake_succeeded (client tcp_peer [5, 1, 0] [])
   \<and> session heap0 server0 (client tcp_peer [5, 1, 0] []) = [Write [5, 0] None, Close]
   \<and> replies (session heap0 server0 (client tcp_peer [5, 1, 0] [])) = []"
  by (simp add: run_defs handshake_succeeded_def replies_def)

end
